theory Spec2Isabelle
  imports Complex_Main
begin

section \<open>The enclave builder modal (EnclaveBuilderModal.tsx)\<close>

text \<open>
  The file holds two React components: \<open>EnclaveBuilderModal\<close>, which owns the loading
  and error state and the Run handler, and \<open>Visualiser\<close>, which owns the node and edge
  lists, the insert-offset counter and the edge synchronisation. Each handler is embedded
  as a function on the component state; calls to collaborators (\<open>createEnclave\<close>,
  \<open>runStarlarkScript\<close>, \<open>onClose\<close>, \<open>navigator\<close>) are recorded, in program order, in
  the list of effects a handler returns. JavaScript's \<open>undefined\<close>/\<open>null\<close> is \<open>None\<close>,
  and \<open>isDefined v\<close> is \<open>v \<noteq> None\<close>.
\<close>

subsection \<open>JavaScript objects used as dictionaries\<close>

text \<open>
  A \<open>Record<string, V>\<close> is an association list with the keys in insertion order, which is
  the order of \<open>Object.entries\<close>. \<open>objectSet k v obj\<close> is the object literal
  \<open>{...obj, [k]: v}\<close>: the value of an existing key is replaced where it stands, a new key
  goes to the end.
\<close>

type_synonym 'v js_object = "(string \<times> 'v) list"

fun objectSet :: "string \<Rightarrow> 'v \<Rightarrow> 'v js_object \<Rightarrow> 'v js_object" where
  "objectSet k v [] = [(k, v)]"
| "objectSet k v ((k', v') # rest) =
     (if k' = k then (k, v) # rest else (k', v') # objectSet k v rest)"

subsection \<open>The modal: state, collaborators and effects\<close>

record EnclaveFullInfo =
  shortenedUuid :: string
  name :: string

record CreateEnclaveResponse =
  enclaveInfo :: "EnclaveFullInfo option"

text \<open>The two \<open>useState\<close> cells of \<open>EnclaveBuilderModal\<close>.\<close>

record modal_state =
  isLoading :: bool
  error :: "string option"

text \<open>
  What a handler does, in program order. \<open>RunStarlarkScript e s\<close> is the call
  \<open>runStarlarkScript(e, s, {})\<close>; \<open>Navigate p l\<close> is \<open>navigator(p, {state: {logs: l}})\<close>.
\<close>

datatype 'l effect =
    SetError "string option"
  | SetIsLoading bool
  | CreateEnclave string string bool
  | RunStarlarkScript EnclaveFullInfo string
  | OnClose
  | Navigate string 'l

text \<open>
  What \<open>handleRun\<close> reads from its surroundings. \<open>visualiserRef\<close> is \<open>None\<close> when the
  imperative handle is not mounted; when it is mounted it carries the outcome of
  \<open>visualiserRef.current.getStarlark()\<close> at the call site inside the \<open>try\<close> block,
  \<open>Inl\<close> for a thrown value. \<open>createEnclave\<close> resolves to a \<open>Result\<close> (\<open>Inl\<close> is
  \<open>isErr\<close>); \<open>runStarlarkScript\<close> resolves to the log iterator or throws (\<open>Inl\<close>).
\<close>

record ('x, 'l) run_props =
  visualiserRef :: "('x + string) option"
  existingEnclave :: "EnclaveFullInfo option"
  createEnclave :: "string \<Rightarrow> string \<Rightarrow> bool \<Rightarrow> string + CreateEnclaveResponse"
  runStarlarkScript :: "EnclaveFullInfo \<Rightarrow> string \<Rightarrow> 'x + 'l"
  stringifyError :: "'x \<Rightarrow> string"

text \<open>Lines 110 to 121 of \<open>handleRun\<close>: the guard on \<open>enclave\<close> and the \<open>try\<close> block.\<close>

definition triggerRun ::
  "('x, 'l) run_props \<Rightarrow> 'x + string \<Rightarrow> EnclaveFullInfo option \<Rightarrow> string option \<Rightarrow> 'l effect list"
where
  "triggerRun p getStarlark enclave enclaveUUID =
     (case enclave of
        None \<Rightarrow> [SetError (Some ''Cannot trigger starlark run as enclave info cannot be found'')]
      | Some e \<Rightarrow>
          (case getStarlark of
             Inl thrown \<Rightarrow> [SetError (Some (stringifyError p thrown))]
           | Inr script \<Rightarrow>
               RunStarlarkScript e script #
               (case runStarlarkScript p e script of
                  Inl thrown \<Rightarrow> [SetError (Some (stringifyError p thrown))]
                | Inr logsIterator \<Rightarrow>
                    [OnClose,
                     Navigate (''/enclave/'' @
                               (case enclaveUUID of None \<Rightarrow> ''undefined'' | Some u \<Rightarrow> u) @
                               ''/logs'') logsIterator])))"

definition handleRun :: "('x, 'l) run_props \<Rightarrow> 'l effect list" where
  "handleRun p =
     (case visualiserRef p of
        None \<Rightarrow> [SetError (Some ''Cannot run when no services are defined'')]
      | Some getStarlark \<Rightarrow>
          SetError None #
          (case existingEnclave p of
             Some existing \<Rightarrow>
               triggerRun p getStarlark (Some existing) (Some (shortenedUuid existing))
           | None \<Rightarrow>
               SetIsLoading True # CreateEnclave '''' ''info'' True # SetIsLoading False #
               (case createEnclave p '''' ''info'' True of
                  Inl cause \<Rightarrow> [SetError (Some (''Could not create enclave, got: '' @ cause))]
                | Inr newEnclave \<Rightarrow>
                    (case enclaveInfo newEnclave of
                       None \<Rightarrow>
                         [SetError (Some ''Did not receive enclave info when running createEnclave'')]
                     | Some info \<Rightarrow>
                         triggerRun p getStarlark (Some info) (Some (shortenedUuid info))))))"

text \<open>The state setters act on the modal state; the collaborator calls leave it alone.\<close>

fun applyEffect :: "'l effect \<Rightarrow> modal_state \<Rightarrow> modal_state" where
  "applyEffect (SetError e) s = s\<lparr>error := e\<rparr>"
| "applyEffect (SetIsLoading b) s = s\<lparr>isLoading := b\<rparr>"
| "applyEffect _ s = s"

fun applyEffects :: "'l effect list \<Rightarrow> modal_state \<Rightarrow> modal_state" where
  "applyEffects [] s = s"
| "applyEffects (a # as) s = applyEffects as (applyEffect a s)"

text \<open>
  Each effect paired with the modal state once it has happened. For an awaited call
  (\<open>CreateEnclave\<close>, \<open>RunStarlarkScript\<close>) this is the state the modal renders with
  while the call is pending.
\<close>

fun statesDuring :: "modal_state \<Rightarrow> 'l effect list \<Rightarrow> ('l effect \<times> modal_state) list" where
  "statesDuring s [] = []"
| "statesDuring s (a # as) = (a, applyEffect a s) # statesDuring (applyEffect a s) as"

definition isBackendCall :: "'l effect \<Rightarrow> bool" where
  "isBackendCall a = (case a of CreateEnclave _ _ _ \<Rightarrow> True | RunStarlarkScript _ _ \<Rightarrow> True | _ \<Rightarrow> False)"

definition isCreateCall :: "'l effect \<Rightarrow> bool" where
  "isCreateCall a = (case a of CreateEnclave _ _ _ \<Rightarrow> True | _ \<Rightarrow> False)"

definition isRunCall :: "'l effect \<Rightarrow> bool" where
  "isRunCall a = (case a of RunStarlarkScript _ _ \<Rightarrow> True | _ \<Rightarrow> False)"

text \<open>
  The ways of closing. \<open>modalOnClose\<close> is the \<open>onClose\<close> prop handed to \<open>Modal\<close>
  (\<open>!isLoading ? onClose : () => null\<close>), which the overlay and the header's close
  button invoke; \<open>closeButtonClick\<close> is the footer button
  (\<open>onClick={onClose} isDisabled={isLoading}\<close>); \<open>closeOnEsc\<close> is the constant prop.
\<close>

definition modalOnClose :: "modal_state \<Rightarrow> 'l effect list" where
  "modalOnClose s = (if \<not> isLoading s then [OnClose] else [])"

definition closeButtonClick :: "modal_state \<Rightarrow> 'l effect list" where
  "closeButtonClick s = (if isLoading s then [] else [OnClose])"

definition closeOnEsc :: bool where
  "closeOnEsc = False"

subsection \<open>The graph: nodes, edges and the per-node data\<close>

text \<open>
  JavaScript numbers are idealised: coordinates are reals, the insert-offset counter is
  an integer. \<open>pos_x\<close> and \<open>pos_y\<close> are the fields \<open>x\<close> and \<open>y\<close> of an
  \<open>XYPosition\<close>, \<open>vp_x\<close> and \<open>vp_y\<close> those of the viewport.
\<close>

record XYPosition =
  pos_x :: real
  pos_y :: real

record Viewport =
  vp_x :: real
  vp_y :: real
  zoom :: real

text \<open>
  A reactflow \<open>Node\<close>: the fields this file writes (\<open>id\<close>, \<open>position\<close>, \<open>width\<close>,
  \<open>type\<close>, \<open>data\<close>); any further field of a node lives in the record's extension.
\<close>

record 'nd Node =
  node_id :: string
  position :: XYPosition
  width :: "real option"
  node_type :: "string option"
  node_data :: "'nd js_object"

record EdgeStyle =
  strokeWidth :: string

record Edge =
  edge_id :: string
  source :: string
  target :: string
  animated :: "bool option"
  style :: "EdgeStyle option"

text \<open>
  \<open>KurtosisNodeData\<close>, with the fields the add handlers fill in. The element types of
  the port, environment and file lists are not fixed by this file.
\<close>

datatype ('p, 'e, 'f, 'a) KurtosisNodeData =
    Service (serviceName: string) (image: string) (ports: "'p list") (env: "'e list")
            (files: "'f list") (isValid: bool)
  | Artifact (artifactName: string) (artifactFiles: "'a js_object") (isValid: bool)

record ('nd, 'd) graph_state =
  nodes :: "'nd Node list"
  edges :: "Edge list"
  data :: "'d js_object"

subsection \<open>The initial graph state of the modal\<close>

text \<open>
  The \<open>useMemo\<close> of \<open>EnclaveBuilderModal\<close>, applied to the result of
  \<open>getInitialGraphStateFromEnclave(existingEnclave)\<close> (\<open>Inl\<close> is \<open>isErr\<close>). It returns
  the effects it performs and the initial nodes, edges and data.
\<close>

definition initialGraphState ::
  "string + ('nd, 'd) graph_state \<Rightarrow> 'l effect list \<times> ('nd, 'd) graph_state"
where
  "initialGraphState parseResult =
     (case parseResult of
        Inl err \<Rightarrow> ([SetError (Some err)], \<lparr>nodes = [], edges = [], data = []\<rparr>)
      | Inr v \<Rightarrow>
          ([], v\<lparr>data :=
                  foldl (\<lambda>acc (i, d). objectSet i d acc) []
                    (filter (\<lambda>(i, d). list_ex (\<lambda>node. node_id node = i) (nodes v)) (data v))\<rparr>))"

subsection \<open>The layout adapter\<close>
















subsection \<open>The visualiser\<close>

text \<open>
  The state of \<open>Visualiser\<close>: the node and edge lists of \<open>useNodesState\<close> and
  \<open>useEdgesState\<close>, the data of the variable context, the \<open>insertOffset\<close> ref and the
  viewport that \<open>getViewport\<close> reads. \<open>uuidv4\<close> belongs to a library: the identifier its
  \<open>n\<close>-th call returns is a parameter \<open>uuid n\<close>, and \<open>uuidCalls\<close> counts the calls made.
  \<open>addNodes\<close> belongs to the rendering library as well and is a parameter of the add
  handlers: \<open>addNodes n ns\<close> is the node list that results from adding \<open>n\<close> to \<open>ns\<close>.
\<close>

record ('nd, 'd) visualiser_state = "('nd, 'd) graph_state" +
  insertOffset :: int
  viewport :: Viewport
  uuidCalls :: nat

text \<open>What \<open>Visualiser\<close> starts from: \<open>useRef(0)\<close> and the initial nodes and edges.\<close>

definition mountVisualiser ::
  "'nd Node list \<Rightarrow> Edge list \<Rightarrow> 'd js_object \<Rightarrow> Viewport \<Rightarrow> ('nd, 'd) visualiser_state"
where
  "mountVisualiser initialNodes initialEdges initialData vp =
     \<lparr>nodes = initialNodes, edges = initialEdges, data = initialData,
      insertOffset = 0, viewport = vp, uuidCalls = 0\<rparr>"

definition uuidv4 ::
  "(nat \<Rightarrow> string) \<Rightarrow> ('nd, 'd) visualiser_state \<Rightarrow> string \<times> ('nd, 'd) visualiser_state"
where
  "uuidv4 uuid st = (uuid (uuidCalls st), st\<lparr>uuidCalls := Suc (uuidCalls st)\<rparr>)"

text \<open>
  Modelled from the spec: \<open>updateData\<close> of the variable context provider, which is not
  part of this file. It registers the record for the identifier in the shared variable map.
\<close>

definition updateData ::
  "string \<Rightarrow> 'd \<Rightarrow> ('nd, 'd) visualiser_state \<Rightarrow> ('nd, 'd) visualiser_state"
where
  "updateData i d st = st\<lparr>data := objectSet i d (data st)\<rparr>"

definition getNewNodePosition ::
  "('nd, 'd) visualiser_state \<Rightarrow> XYPosition \<times> ('nd, 'd) visualiser_state"
where
  "getNewNodePosition st =
     (let vp = viewport st;
          st' = st\<lparr>insertOffset := insertOffset st + 1\<rparr>
      in (\<lparr>pos_x = - vp_x vp + of_int (insertOffset st') * 20 + 400,
           pos_y = - vp_y vp + of_int (insertOffset st') * 20\<rparr>, st'))"

definition handleAddServiceNode ::
  "('nd Node \<Rightarrow> 'nd Node list \<Rightarrow> 'nd Node list) \<Rightarrow> (nat \<Rightarrow> string) \<Rightarrow>
   ('nd, ('p, 'e, 'f, 'a) KurtosisNodeData) visualiser_state \<Rightarrow>
     ('nd, ('p, 'e, 'f, 'a) KurtosisNodeData) visualiser_state"
where
  "handleAddServiceNode addNodes uuid st =
     (let (i, st1) = uuidv4 uuid st;
          st2 = updateData i (Service '''' '''' [] [] [] False) st1;
          (pos, st3) = getNewNodePosition st2
      in st3\<lparr>nodes := addNodes \<lparr>node_id = i, position = pos, width = Some 600,
                                  node_type = Some ''serviceNode'', node_data = []\<rparr> (nodes st3)\<rparr>)"

definition handleAddArtifactNode ::
  "('nd Node \<Rightarrow> 'nd Node list \<Rightarrow> 'nd Node list) \<Rightarrow> (nat \<Rightarrow> string) \<Rightarrow>
   ('nd, ('p, 'e, 'f, 'a) KurtosisNodeData) visualiser_state \<Rightarrow>
     ('nd, ('p, 'e, 'f, 'a) KurtosisNodeData) visualiser_state"
where
  "handleAddArtifactNode addNodes uuid st =
     (let (i, st1) = uuidv4 uuid st;
          st2 = updateData i (Artifact '''' [] False) st1;
          (pos, st3) = getNewNodePosition st2
      in st3\<lparr>nodes := addNodes \<lparr>node_id = i, position = pos, width = Some 600,
                                  node_type = Some ''artifactNode'', node_data = []\<rparr> (nodes st3)\<rparr>)"

text \<open>The \<open>onMove\<close> callback handed to \<open>ReactFlow\<close>.\<close>

definition onMove :: "('nd, 'd) visualiser_state \<Rightarrow> ('nd, 'd) visualiser_state" where
  "onMove st = st\<lparr>insertOffset := 1\<rparr>"

text \<open>
  The edge synchroniser: the updater passed to \<open>setEdges\<close> in the \<open>useEffect\<close> on
  \<open>data\<close>, and the effect itself. \<open>getNodeDependencies\<close> is not part of this file and is a
  parameter; its result, a \<open>Record<string, Set<string>>\<close>, is given by its entries, each
  set by its elements in iteration order.
\<close>

definition syncEdges :: "('d js_object \<Rightarrow> string list js_object) \<Rightarrow> 'd js_object \<Rightarrow> Edge list \<Rightarrow> Edge list" where
  "syncEdges getNodeDependencies d prevState =
     concat (map (\<lambda>(to, froms).
                    map (\<lambda>from. \<lparr>edge_id = from @ ''-'' @ to, source = from, target = to,
                                  animated = Some True,
                                  style = Some \<lparr>strokeWidth = ''3px''\<rparr>\<rparr>) froms)
                 (getNodeDependencies d))"

definition edgeSyncEffect ::
  "('d js_object \<Rightarrow> string list js_object) \<Rightarrow> ('nd, 'd) visualiser_state \<Rightarrow> ('nd, 'd) visualiser_state"
where
  "edgeSyncEffect getNodeDependencies st =
     st\<lparr>edges := syncEdges getNodeDependencies (data st) (edges st)\<rparr>"

text \<open>
  The flattened dependency relation, in the words of the specification: one
  (source, target) pair for every dependency of every node.
\<close>

definition flattenedDependencies :: "string list js_object \<Rightarrow> (string \<times> string) list" where
  "flattenedDependencies deps = concat (map (\<lambda>(to, froms). map (\<lambda>from. (from, to)) froms) deps)"

text \<open>The user's actions on the visualiser, and a run of them.\<close>

datatype visualiser_event = AddServiceNode | AddArtifactNode | Move Viewport

fun dispatch ::
  "('nd Node \<Rightarrow> 'nd Node list \<Rightarrow> 'nd Node list) \<Rightarrow> (nat \<Rightarrow> string) \<Rightarrow> visualiser_event \<Rightarrow>
   ('nd, ('p, 'e, 'f, 'a) KurtosisNodeData) visualiser_state \<Rightarrow>
     ('nd, ('p, 'e, 'f, 'a) KurtosisNodeData) visualiser_state"
where
  "dispatch addNodes uuid AddServiceNode st = handleAddServiceNode addNodes uuid st"
| "dispatch addNodes uuid AddArtifactNode st = handleAddArtifactNode addNodes uuid st"
| "dispatch addNodes uuid (Move vp) st = onMove (st\<lparr>viewport := vp\<rparr>)"

fun dispatchAll ::
  "('nd Node \<Rightarrow> 'nd Node list \<Rightarrow> 'nd Node list) \<Rightarrow> (nat \<Rightarrow> string) \<Rightarrow> visualiser_event list \<Rightarrow>
   ('nd, ('p, 'e, 'f, 'a) KurtosisNodeData) visualiser_state \<Rightarrow>
     ('nd, ('p, 'e, 'f, 'a) KurtosisNodeData) visualiser_state"
where
  "dispatchAll addNodes uuid [] st = st"
| "dispatchAll addNodes uuid (ev # evs) st = dispatchAll addNodes uuid evs (dispatch addNodes uuid ev st)"

definition isAdd :: "visualiser_event \<Rightarrow> bool" where
  "isAdd ev = (case ev of AddServiceNode \<Rightarrow> True | AddArtifactNode \<Rightarrow> True | Move _ \<Rightarrow> False)"

text \<open>The default record each add handler registers.\<close>

definition defaultData :: "visualiser_event \<Rightarrow> ('p, 'e, 'f, 'a) KurtosisNodeData option" where
  "defaultData ev =
     (case ev of
        AddServiceNode \<Rightarrow> Some (Service '''' '''' [] [] [] False)
      | AddArtifactNode \<Rightarrow> Some (Artifact '''' [] False)
      | Move _ \<Rightarrow> None)"

subsection \<open>Example inputs\<close>

text \<open>Concrete collaborators and props on which the theorems below are instantiated.\<close>

definition failingCreate :: "string \<Rightarrow> string \<Rightarrow> bool \<Rightarrow> string + CreateEnclaveResponse" where
  "failingCreate enclaveName logLevel productionMode = Inl ''connection refused''"

definition emptyCreate :: "string \<Rightarrow> string \<Rightarrow> bool \<Rightarrow> string + CreateEnclaveResponse" where
  "emptyCreate enclaveName logLevel productionMode = Inr \<lparr>enclaveInfo = None\<rparr>"

definition streamingRun :: "EnclaveFullInfo \<Rightarrow> string \<Rightarrow> string + nat" where
  "streamingRun enclave script = Inr 7"

definition exampleEnclave :: EnclaveFullInfo where
  "exampleEnclave = \<lparr>shortenedUuid = ''abc123'', name = ''demo''\<rparr>"

definition idle :: modal_state where
  "idle = \<lparr>isLoading = False, error = None\<rparr>"

definition unmountedProps :: "(string, nat) run_props" where
  "unmountedProps = \<lparr>visualiserRef = None, existingEnclave = None, createEnclave = failingCreate,
     runStarlarkScript = streamingRun, stringifyError = id\<rparr>"

definition editingProps :: "(string, nat) run_props" where
  "editingProps = \<lparr>visualiserRef = Some (Inr ''plan''), existingEnclave = Some exampleEnclave,
     createEnclave = failingCreate, runStarlarkScript = streamingRun, stringifyError = id\<rparr>"

definition failingProps :: "(string, nat) run_props" where
  "failingProps = \<lparr>visualiserRef = Some (Inr ''plan''), existingEnclave = None,
     createEnclave = failingCreate, runStarlarkScript = streamingRun, stringifyError = id\<rparr>"

definition emptyProps :: "(string, nat) run_props" where
  "emptyProps = \<lparr>visualiserRef = Some (Inr ''plan''), existingEnclave = None,
     createEnclave = emptyCreate, runStarlarkScript = streamingRun, stringifyError = id\<rparr>"

definition succeedingCreate :: "string \<Rightarrow> string \<Rightarrow> bool \<Rightarrow> string + CreateEnclaveResponse" where
  "succeedingCreate enclaveName logLevel productionMode = Inr \<lparr>enclaveInfo = Some exampleEnclave\<rparr>"

definition creatingProps :: "(string, nat) run_props" where
  "creatingProps = \<lparr>visualiserRef = Some (Inr ''plan''), existingEnclave = None,
     createEnclave = succeedingCreate, runStarlarkScript = streamingRun, stringifyError = id\<rparr>"

definition exampleDependencies ::
  "(nat, nat, nat, nat) KurtosisNodeData js_object \<Rightarrow> string list js_object" where
  "exampleDependencies d = [(''B'', [''A''])]"

definition staleEdge :: Edge where
  "staleEdge = \<lparr>edge_id = ''X-Y'', source = ''X'', target = ''Y'', animated = None, style = None\<rparr>"

definition origin :: Viewport where
  "origin = \<lparr>vp_x = 0, vp_y = 0, zoom = 1\<rparr>"

definition exampleUuid :: "nat \<Rightarrow> string" where
  "exampleUuid n = ''node-'' @ replicate n (CHR ''i'')"

definition freshVisualiser :: "(unit, (nat, nat, nat, nat) KurtosisNodeData) visualiser_state" where
  "freshVisualiser = mountVisualiser [] [] [] origin"

definition placeFirst :: "unit Node \<Rightarrow> unit Node list \<Rightarrow> unit Node list" where
  "placeFirst n ns = n # ns"







definition exampleNode :: "unit Node" where
  "exampleNode = \<lparr>node_id = ''A'', position = \<lparr>pos_x = 0, pos_y = 0\<rparr>, width = Some 600,
     node_type = Some ''serviceNode'', node_data = []\<rparr>"

definition exampleParse :: "(unit, nat) graph_state" where
  "exampleParse = \<lparr>nodes = [exampleNode], edges = [], data = [(''A'', 1), (''gone'', 2)]\<rparr>"

section \<open>The Run handler\<close>

text \<open>
  C2. When the export handle is not mounted, the handler does one thing, setting the
  error to the fixed message: no backend call is made and the rest of the modal state
  stays as it was.
\<close>

theorem handleRun_unmounted:
  "visualiserRef p = None \<Longrightarrow>
     handleRun p = [SetError (Some ''Cannot run when no services are defined'')] \<and>
     applyEffects (handleRun p) s = s\<lparr>error := Some ''Cannot run when no services are defined''\<rparr> \<and>
     (\<forall>a \<in> set (handleRun p). \<not> isBackendCall a)"
  by (simp add: handleRun_def isBackendCall_def)

theorem handleRun_unmounted_witness:
  "handleRun unmountedProps = [SetError (Some ''Cannot run when no services are defined'')] \<and>
   applyEffects (handleRun unmountedProps) idle =
     \<lparr>isLoading = False, error = Some ''Cannot run when no services are defined''\<rparr>"
  using handleRun_unmounted [of unmountedProps idle]
  by (simp add: unmountedProps_def idle_def)

text \<open>
  C3. When a pre-existing deployment was supplied, the handler never calls
  \<open>createEnclave\<close>: every backend call it makes is \<open>runStarlarkScript\<close> on that
  deployment, and with the handle mounted and the script generated it makes exactly that
  one call.
\<close>

theorem handleRun_existing_never_creates:
  "existingEnclave p = Some e \<Longrightarrow>
     (\<forall>a \<in> set (handleRun p). \<not> isCreateCall a) \<and>
     (\<forall>a \<in> set (handleRun p). isBackendCall a \<longrightarrow> (\<exists>script. a = RunStarlarkScript e script)) \<and>
     (\<forall>script. visualiserRef p = Some (Inr script) \<longrightarrow>
        filter isBackendCall (handleRun p) = [RunStarlarkScript e script])"
  by (auto simp: handleRun_def triggerRun_def isCreateCall_def isBackendCall_def
           split: option.splits sum.splits)

theorem handleRun_existing_never_creates_witness:
  "existingEnclave editingProps = Some exampleEnclave \<and>
   filter isBackendCall (handleRun editingProps) = [RunStarlarkScript exampleEnclave ''plan'']"
  using handleRun_existing_never_creates [of editingProps exampleEnclave]
  by (simp add: editingProps_def)

text \<open>
  C4. With no pre-existing deployment, any call of \<open>runStarlarkScript\<close> comes after the
  call \<open>createEnclave("", "info", true)\<close>, which is the first backend call of a handler
  that got past the handle check. When that call returns an error, the handler sets the
  error to the creation message with the cause and stops: \<open>runStarlarkScript\<close> is not
  called.
\<close>

theorem handleRun_creates_first:
  "existingEnclave p = None \<Longrightarrow>
     (\<forall>before a after. handleRun p = before @ a # after \<and> isRunCall a \<longrightarrow>
        CreateEnclave '''' ''info'' True \<in> set before) \<and>
     (visualiserRef p \<noteq> None \<longrightarrow>
        take 1 (filter isBackendCall (handleRun p)) = [CreateEnclave '''' ''info'' True]) \<and>
     (\<forall>cause. visualiserRef p \<noteq> None \<and> createEnclave p '''' ''info'' True = Inl cause \<longrightarrow>
        handleRun p = [SetError None, SetIsLoading True, CreateEnclave '''' ''info'' True,
                       SetIsLoading False,
                       SetError (Some (''Could not create enclave, got: '' @ cause))] \<and>
        error (applyEffects (handleRun p) s) = Some (''Could not create enclave, got: '' @ cause) \<and>
        (\<forall>a \<in> set (handleRun p). \<not> isRunCall a))"
  apply (intro conjI allI impI)
  subgoal for before a after
    apply (cases "visualiserRef p")
     apply (auto simp: handleRun_def isRunCall_def Cons_eq_append_conv)
    done
     apply (auto simp: handleRun_def isRunCall_def isBackendCall_def)
  done

theorem handleRun_creates_first_witness:
  "existingEnclave failingProps = None \<and>
   handleRun failingProps =
     [SetError None, SetIsLoading True, CreateEnclave '''' ''info'' True, SetIsLoading False,
      SetError (Some ''Could not create enclave, got: connection refused'')] \<and>
   error (applyEffects (handleRun failingProps) idle) =
     Some ''Could not create enclave, got: connection refused''"
  using handleRun_creates_first [of failingProps idle]
  by (simp add: failingProps_def failingCreate_def)

text \<open>
  C5. With no pre-existing deployment, when \<open>createEnclave\<close> succeeds with a response
  that has no \<open>enclaveInfo\<close>, the handler sets the error to the fixed message and stops:
  \<open>runStarlarkScript\<close> is not called.
\<close>

theorem handleRun_missing_enclave_info:
  "existingEnclave p = None \<Longrightarrow> visualiserRef p = Some g \<Longrightarrow>
   createEnclave p '''' ''info'' True = Inr response \<Longrightarrow> enclaveInfo response = None \<Longrightarrow>
     handleRun p = [SetError None, SetIsLoading True, CreateEnclave '''' ''info'' True,
                    SetIsLoading False,
                    SetError (Some ''Did not receive enclave info when running createEnclave'')] \<and>
     error (applyEffects (handleRun p) s) =
       Some ''Did not receive enclave info when running createEnclave'' \<and>
     (\<forall>a \<in> set (handleRun p). \<not> isRunCall a)"
  by (simp add: handleRun_def isRunCall_def)

theorem handleRun_missing_enclave_info_witness:
  "existingEnclave emptyProps = None \<and> visualiserRef emptyProps = Some (Inr ''plan'') \<and>
   createEnclave emptyProps '''' ''info'' True = Inr \<lparr>enclaveInfo = None\<rparr> \<and>
   error (applyEffects (handleRun emptyProps) idle) =
     Some ''Did not receive enclave info when running createEnclave'' \<and>
   filter isRunCall (handleRun emptyProps) = []"
  using handleRun_missing_enclave_info
          [of emptyProps "Inr ''plan''" "\<lparr>enclaveInfo = None\<rparr>" idle]
  by (simp add: emptyProps_def emptyCreate_def isRunCall_def)

section \<open>Closing the modal\<close>

text \<open>
  A run that creates its enclave, effect by effect with the modal state after each: the
  loading flag is up only around \<open>createEnclave\<close>. While \<open>runStarlarkScript\<close> is
  pending the flag is down again, so both the \<open>Modal\<close>'s \<open>onClose\<close> and the footer
  button invoke the close callback.
\<close>

theorem close_enabled_while_run_pending_counterexample:
  "statesDuring idle (handleRun creatingProps) =
     [(SetError None, \<lparr>isLoading = False, error = None\<rparr>),
      (SetIsLoading True, \<lparr>isLoading = True, error = None\<rparr>),
      (CreateEnclave '''' ''info'' True, \<lparr>isLoading = True, error = None\<rparr>),
      (SetIsLoading False, \<lparr>isLoading = False, error = None\<rparr>),
      (RunStarlarkScript exampleEnclave ''plan'', \<lparr>isLoading = False, error = None\<rparr>),
      (OnClose, \<lparr>isLoading = False, error = None\<rparr>),
      (Navigate ''/enclave/abc123/logs'' 7, \<lparr>isLoading = False, error = None\<rparr>)] \<and>
   modalOnClose \<lparr>isLoading = False, error = None\<rparr> = [OnClose :: nat effect] \<and>
   closeButtonClick \<lparr>isLoading = False, error = None\<rparr> = [OnClose :: nat effect]"
  by (simp add: handleRun_def triggerRun_def creatingProps_def succeedingCreate_def
        streamingRun_def exampleEnclave_def idle_def modalOnClose_def closeButtonClick_def)

text \<open>
  C6, as amended. Closing is a no-op whenever the loading flag is set and invokes the
  close callback whenever it is not, for the \<open>Modal\<close>'s \<open>onClose\<close> and for the footer
  button alike; dismissal by escape is switched off altogether. The handler sets the flag
  only around \<open>createEnclave\<close>: starting from a modal that is not loading, the flag is
  up only right after \<open>setIsLoading(true)\<close> and while \<open>createEnclave\<close> is pending, it
  is down while \<open>runStarlarkScript\<close> is pending and when the handler has finished, and
  with a pre-existing deployment the handler never touches it.
\<close>

theorem close_blocked_only_while_creating:
  "(isLoading s \<longrightarrow> modalOnClose s = ([] :: 'l effect list) \<and> closeButtonClick s = ([] :: 'l effect list)) \<and>
   (\<not> isLoading s \<longrightarrow> modalOnClose s = [OnClose :: 'l effect] \<and> closeButtonClick s = [OnClose :: 'l effect]) \<and>
   \<not> closeOnEsc \<and>
   (\<forall>(a, s') \<in> set (statesDuring s (handleRun (p :: ('x, 'l) run_props))).
      isCreateCall a \<longrightarrow> isLoading s' \<and> modalOnClose s' = ([] :: 'l effect list)) \<and>
   (\<forall>(a, s') \<in> set (statesDuring s (handleRun p)).
      isRunCall a \<longrightarrow> isLoading s' = (isLoading s \<and> existingEnclave p \<noteq> None)) \<and>
   (\<forall>(a, s') \<in> set (statesDuring s (handleRun p)).
      isLoading s' \<and> \<not> isLoading s \<longrightarrow> a = SetIsLoading True \<or> a = CreateEnclave '''' ''info'' True) \<and>
   (existingEnclave p \<noteq> None \<longrightarrow> (\<forall>b. SetIsLoading b \<notin> set (handleRun p))) \<and>
   isLoading (applyEffects (handleRun p) s) =
     (isLoading s \<and> (visualiserRef p = None \<or> existingEnclave p \<noteq> None))"
proof (intro conjI)
  show "isLoading s \<longrightarrow> modalOnClose s = ([] :: 'l effect list) \<and> closeButtonClick s = ([] :: 'l effect list)"
    and "\<not> isLoading s \<longrightarrow> modalOnClose s = [OnClose :: 'l effect] \<and> closeButtonClick s = [OnClose :: 'l effect]"
    and "\<not> closeOnEsc"
    by (simp_all add: modalOnClose_def closeButtonClick_def closeOnEsc_def)
  show "\<forall>(a, s') \<in> set (statesDuring s (handleRun p)).
      isCreateCall a \<longrightarrow> isLoading s' \<and> modalOnClose s' = ([] :: 'l effect list)"
    by (auto simp: handleRun_def triggerRun_def modalOnClose_def isCreateCall_def
          split: option.splits sum.splits)
  show "\<forall>(a, s') \<in> set (statesDuring s (handleRun p)).
      isRunCall a \<longrightarrow> isLoading s' = (isLoading s \<and> existingEnclave p \<noteq> None)"
    by (auto simp: handleRun_def triggerRun_def isRunCall_def split: option.splits sum.splits)
  show "\<forall>(a, s') \<in> set (statesDuring s (handleRun p)).
      isLoading s' \<and> \<not> isLoading s \<longrightarrow> a = SetIsLoading True \<or> a = CreateEnclave '''' ''info'' True"
    by (auto simp: handleRun_def triggerRun_def split: option.splits sum.splits)
  show "existingEnclave p \<noteq> None \<longrightarrow> (\<forall>b. SetIsLoading b \<notin> set (handleRun p))"
    by (auto simp: handleRun_def triggerRun_def split: option.splits sum.splits)
  show "isLoading (applyEffects (handleRun p) s) =
     (isLoading s \<and> (visualiserRef p = None \<or> existingEnclave p \<noteq> None))"
    by (auto simp: handleRun_def triggerRun_def split: option.splits sum.splits)
qed

theorem close_blocked_only_while_creating_witness:
  "(CreateEnclave '''' ''info'' True, \<lparr>isLoading = True, error = None\<rparr>)
     \<in> set (statesDuring idle (handleRun creatingProps)) \<and>
   isCreateCall (CreateEnclave '''' ''info'' True :: nat effect) \<and>
   modalOnClose \<lparr>isLoading = True, error = None\<rparr> = ([] :: nat effect list) \<and>
   closeButtonClick \<lparr>isLoading = True, error = None\<rparr> = ([] :: nat effect list) \<and>
   (RunStarlarkScript exampleEnclave ''plan'', idle) \<in> set (statesDuring idle (handleRun editingProps)) \<and>
   isRunCall (RunStarlarkScript exampleEnclave ''plan'' :: nat effect) \<and>
   existingEnclave editingProps = Some exampleEnclave \<and>
   modalOnClose idle = [OnClose :: nat effect] \<and>
   filter isLoading (map snd (statesDuring idle (handleRun editingProps))) = [] \<and>
   isLoading (applyEffects (handleRun creatingProps) idle) = False"
  using close_blocked_only_while_creating [of "\<lparr>isLoading = True, error = None\<rparr>" creatingProps]
    close_blocked_only_while_creating [of idle creatingProps]
    close_blocked_only_while_creating [of idle editingProps]
  by (simp add: creatingProps_def editingProps_def idle_def handleRun_def triggerRun_def
        streamingRun_def succeedingCreate_def exampleEnclave_def isRunCall_def isCreateCall_def
        modalOnClose_def closeButtonClick_def)

section \<open>The edge synchroniser\<close>

lemma flattened_targets: "p \<in> set (flattenedDependencies deps) \<Longrightarrow> snd p \<in> fst ` set deps"
  by (induction deps) (auto simp: flattenedDependencies_def)

lemma flattened_distinct:
  "distinct (map fst deps) \<Longrightarrow> (\<forall>(to, froms) \<in> set deps. distinct froms) \<Longrightarrow>
     distinct (flattenedDependencies deps)"
proof (induction deps)
  case Nil
  then show ?case by (simp add: flattenedDependencies_def)
next
  case (Cons entry deps)
  obtain to froms where entry: "entry = (to, froms)" by (cases entry)
  have rest: "distinct (flattenedDependencies deps)"
    using Cons by simp
  have here: "distinct (map (\<lambda>from. (from, to)) froms)"
    using Cons.prems(2) entry by (simp add: distinct_map inj_on_def)
  have apart: "set (map (\<lambda>from. (from, to)) froms) \<inter> set (flattenedDependencies deps) = {}"
    using Cons.prems(1) entry flattened_targets [of _ deps] by fastforce
  have "flattenedDependencies (entry # deps) =
          map (\<lambda>from. (from, to)) froms @ flattenedDependencies deps"
    by (simp add: flattenedDependencies_def entry)
  with rest here apart show ?case by simp
qed

lemma syncEdges_pairs:
  "map (\<lambda>e. (source e, target e)) (syncEdges gnd d prev) = flattenedDependencies (gnd d)"
  by (simp add: syncEdges_def flattenedDependencies_def map_concat o_def split_def)

lemma syncEdges_styling:
  "e \<in> set (syncEdges gnd d prev) \<Longrightarrow>
     edge_id e = source e @ ''-'' @ target e \<and> animated e = Some True \<and>
     style e = Some \<lparr>strokeWidth = ''3px''\<rparr>"
  by (auto simp: syncEdges_def)

text \<open>
  C1. After the edge synchroniser has run, the edge list is the flattened dependency
  relation of \<open>getNodeDependencies\<close> over the data: its (source, target) pairs are
  that relation, pair by pair and each pair once, every edge is named
  \<open>source-target\<close>, animated and drawn with a 3px stroke, and the previous edge list
  has no influence on the result. The keys of the dependency record and the elements of
  each of its sets are distinct, as those of an object and of a \<open>Set\<close> are.
\<close>

theorem edgeSyncEffect_flattened_dependencies:
  "distinct (map fst (getNodeDependencies (data st))) \<Longrightarrow>
   (\<forall>(to, froms) \<in> set (getNodeDependencies (data st)). distinct froms) \<Longrightarrow>
     map (\<lambda>e. (source e, target e)) (edges (edgeSyncEffect getNodeDependencies st)) =
       flattenedDependencies (getNodeDependencies (data st)) \<and>
     distinct (map (\<lambda>e. (source e, target e)) (edges (edgeSyncEffect getNodeDependencies st))) \<and>
     (\<forall>e \<in> set (edges (edgeSyncEffect getNodeDependencies st)).
        edge_id e = source e @ ''-'' @ target e \<and> animated e = Some True \<and>
        style e = Some \<lparr>strokeWidth = ''3px''\<rparr>) \<and>
     edgeSyncEffect getNodeDependencies (st\<lparr>edges := previous\<rparr>) =
       edgeSyncEffect getNodeDependencies st \<and>
     edgeSyncEffect getNodeDependencies st =
       st\<lparr>edges := edges (edgeSyncEffect getNodeDependencies st)\<rparr>"
proof (intro conjI)
  assume keys: "distinct (map fst (getNodeDependencies (data st)))"
    and sets: "\<forall>(to, froms) \<in> set (getNodeDependencies (data st)). distinct froms"
  show pairs: "map (\<lambda>e. (source e, target e)) (edges (edgeSyncEffect getNodeDependencies st)) =
       flattenedDependencies (getNodeDependencies (data st))"
    by (simp add: edgeSyncEffect_def syncEdges_pairs)
  show "distinct (map (\<lambda>e. (source e, target e)) (edges (edgeSyncEffect getNodeDependencies st)))"
    unfolding pairs using keys sets by (rule flattened_distinct)
  show "\<forall>e \<in> set (edges (edgeSyncEffect getNodeDependencies st)).
        edge_id e = source e @ ''-'' @ target e \<and> animated e = Some True \<and>
        style e = Some \<lparr>strokeWidth = ''3px''\<rparr>"
    using syncEdges_styling by (simp add: edgeSyncEffect_def) blast
  show "edgeSyncEffect getNodeDependencies (st\<lparr>edges := previous\<rparr>) =
       edgeSyncEffect getNodeDependencies st"
    by (simp add: edgeSyncEffect_def syncEdges_def)
  show "edgeSyncEffect getNodeDependencies st =
       st\<lparr>edges := edges (edgeSyncEffect getNodeDependencies st)\<rparr>"
    by (simp add: edgeSyncEffect_def)
qed

theorem edgeSyncEffect_flattened_dependencies_witness:
  "distinct (map fst (exampleDependencies [])) \<and>
   list_all (distinct \<circ> snd) (exampleDependencies []) \<and>
   edges (edgeSyncEffect exampleDependencies (mountVisualiser [] [staleEdge] [] origin)) =
     [\<lparr>edge_id = ''A-B'', source = ''A'', target = ''B'', animated = Some True,
       style = Some \<lparr>strokeWidth = ''3px''\<rparr>\<rparr>]"
  using edgeSyncEffect_flattened_dependencies
    [of exampleDependencies "mountVisualiser [] [staleEdge] [] origin"]
  by (simp add: exampleDependencies_def mountVisualiser_def edgeSyncEffect_def syncEdges_def)

section \<open>Adding nodes\<close>

lemma map_of_objectSet: "map_of (objectSet k v obj) = (map_of obj)(k \<mapsto> v)"
  by (induction obj) (auto simp: fun_eq_iff)


lemma dispatchAll_snoc:
  "dispatchAll addNodes uuid (evs @ [ev]) st = dispatch addNodes uuid ev (dispatchAll addNodes uuid evs st)"
  by (induction evs arbitrary: st) auto

lemma dispatch_add:
  "isAdd ev \<Longrightarrow>
     uuidCalls (dispatch addNodes uuid ev st) = Suc (uuidCalls st) \<and>
     insertOffset (dispatch addNodes uuid ev st) = insertOffset st + 1 \<and>
     viewport (dispatch addNodes uuid ev st) = viewport st \<and>
     edges (dispatch addNodes uuid ev st) = edges st \<and>
     data (dispatch addNodes uuid ev st) =
       objectSet (uuid (uuidCalls st)) (the (defaultData ev)) (data st) \<and>
     nodes (dispatch addNodes uuid ev st) =
       addNodes
         \<lparr>node_id = uuid (uuidCalls st),
            position =
              \<lparr>pos_x = - vp_x (viewport st) + of_int (insertOffset st + 1) * 20 + 400,
               pos_y = - vp_y (viewport st) + of_int (insertOffset st + 1) * 20\<rparr>,
            width = Some 600,
            node_type = Some (if ev = AddServiceNode then ''serviceNode'' else ''artifactNode''),
            node_data = []\<rparr>
         (nodes st)"
  by (cases ev)
     (simp_all add: isAdd_def defaultData_def handleAddServiceNode_def handleAddArtifactNode_def
        uuidv4_def updateData_def getNewNodePosition_def Let_def)

lemma defaultData_invalid:
  "isAdd ev \<Longrightarrow>
     \<exists>d. defaultData ev = Some d \<and> \<not> isValid d \<and>
         (d = Service '''' '''' [] [] [] False \<or> d = Artifact '''' [] False)"
  by (cases ev) (simp_all add: isAdd_def defaultData_def)

text \<open>What a run of add actions does whatever identifiers \<open>uuidv4\<close> returns.\<close>

lemma dispatchAll_adds_any:
  "(\<forall>ev \<in> set evs. isAdd ev) \<Longrightarrow>
     uuidCalls (dispatchAll addNodes uuid evs (st :: ('nd, ('p, 'e, 'f, 'a) KurtosisNodeData) visualiser_state)) =
       uuidCalls st + length evs \<and>
     insertOffset (dispatchAll addNodes uuid evs st) = insertOffset st + int (length evs) \<and>
     (\<forall>i < length evs.
        \<exists>d. map_of (data (dispatchAll addNodes uuid evs st)) (uuid (uuidCalls st + i)) = Some d \<and>
            \<not> isValid d \<and> (d = Service '''' '''' [] [] [] False \<or> d = Artifact '''' [] False))"
proof (induction evs rule: rev_induct)
  case Nil
  then show ?case by simp
next
  case (snoc ev evs)
  let ?c = "uuidCalls st"
  let ?mid = "dispatchAll addNodes uuid evs st"
  have adds: "\<forall>ev \<in> set evs. isAdd ev" and add: "isAdd ev"
    using snoc.prems by simp_all
  note IH = snoc.IH [OF adds]
  note step = dispatch_add [OF add, of addNodes uuid ?mid]
  have calls: "uuidCalls ?mid = ?c + length evs" using IH by simp
  obtain v :: "('p, 'e, 'f, 'a) KurtosisNodeData" where def: "defaultData ev = Some v"
    and v: "\<not> isValid v" "v = Service '''' '''' [] [] [] False \<or> v = Artifact '''' [] False"
    using defaultData_invalid [OF add] by blast
  have dat: "data (dispatchAll addNodes uuid (evs @ [ev]) st) =
      objectSet (uuid (?c + length evs)) v (data ?mid)"
    using step calls def by (simp add: dispatchAll_snoc)
  have c1: "uuidCalls (dispatchAll addNodes uuid (evs @ [ev]) st) = ?c + length (evs @ [ev])"
    using step calls by (simp add: dispatchAll_snoc)
  have c2: "insertOffset (dispatchAll addNodes uuid (evs @ [ev]) st) =
      insertOffset st + int (length (evs @ [ev]))"
    using step IH by (simp add: dispatchAll_snoc)
  have c3: "\<forall>i < length (evs @ [ev]).
        \<exists>d. map_of (data (dispatchAll addNodes uuid (evs @ [ev]) st)) (uuid (?c + i)) = Some d \<and>
            \<not> isValid d \<and> (d = Service '''' '''' [] [] [] False \<or> d = Artifact '''' [] False)"
  proof (intro allI impI)
    fix i assume i: "i < length (evs @ [ev])"
    show "\<exists>d. map_of (data (dispatchAll addNodes uuid (evs @ [ev]) st)) (uuid (?c + i)) = Some d \<and>
            \<not> isValid d \<and> (d = Service '''' '''' [] [] [] False \<or> d = Artifact '''' [] False)"
    proof (cases "uuid (?c + i) = uuid (?c + length evs)")
      case True
      then show ?thesis using v by (simp add: dat map_of_objectSet)
    next
      case False
      then have "i \<noteq> length evs" by auto
      with i have "i < length evs" by simp
      then show ?thesis using IH False by (simp add: dat map_of_objectSet)
    qed
  qed
  from c1 c2 c3 show ?case by blast
qed





text \<open>
  The counter is 0 at first and a pan sets it to 1: with the counter at 0 the next node
  lands 20 units from the viewport origin (plus the horizontal 400), after a pan the next
  node lands 40 units from it.
\<close>

theorem pan_resets_to_one_counterexample:
  "insertOffset freshVisualiser = 0 \<and>
   insertOffset (onMove freshVisualiser) = 1 \<and>
   map position (nodes (dispatchAll placeFirst exampleUuid [AddServiceNode] freshVisualiser)) =
     [\<lparr>pos_x = 420, pos_y = 20\<rparr>] \<and>
   map position (nodes (dispatchAll placeFirst exampleUuid [Move origin, AddServiceNode] freshVisualiser)) =
     [\<lparr>pos_x = 440, pos_y = 40\<rparr>]"
  by (simp add: exampleUuid_def placeFirst_def freshVisualiser_def mountVisualiser_def origin_def
        onMove_def handleAddServiceNode_def uuidv4_def updateData_def
        getNewNodePosition_def Let_def)

text \<open>
  C8, as amended. The node an add action hands to \<open>addNodes\<close> is placed at
  \<open>x = -viewport.x + c * 20 + 400\<close>, \<open>y = -viewport.y + c * 20\<close>, where \<open>c\<close> is the offset
  counter after the increment this insertion makes. The counter is created as 0, grows
  by one with every insertion, and is set to 1 when the view is moved.
\<close>

theorem insert_position_and_counter:
  "getNewNodePosition st =
     (\<lparr>pos_x = - vp_x (viewport st) + of_int (insertOffset st + 1) * 20 + 400,
       pos_y = - vp_y (viewport st) + of_int (insertOffset st + 1) * 20\<rparr>,
      st\<lparr>insertOffset := insertOffset st + 1\<rparr>) \<and>
   (isAdd ev \<longrightarrow>
      insertOffset (dispatch addNodes uuid ev s) = insertOffset s + 1 \<and>
      nodes (dispatch addNodes uuid ev s) =
        addNodes
          \<lparr>node_id = uuid (uuidCalls s),
            position =
              \<lparr>pos_x = - vp_x (viewport s) + of_int (insertOffset s + 1) * 20 + 400,
               pos_y = - vp_y (viewport s) + of_int (insertOffset s + 1) * 20\<rparr>,
            width = Some 600,
            node_type = Some (if ev = AddServiceNode then ''serviceNode'' else ''artifactNode''),
            node_data = []\<rparr>
          (nodes s)) \<and>
   ((\<forall>ev \<in> set evs. isAdd ev) \<longrightarrow>
      insertOffset (dispatchAll addNodes uuid evs s) = insertOffset s + int (length evs)) \<and>
   insertOffset (onMove st) = 1 \<and>
   insertOffset (dispatch addNodes uuid (Move vp) s) = 1 \<and>
   insertOffset (mountVisualiser initialNodes initialEdges initialData vp) = 0"
proof (intro conjI impI)
  show "getNewNodePosition st =
     (\<lparr>pos_x = - vp_x (viewport st) + of_int (insertOffset st + 1) * 20 + 400,
       pos_y = - vp_y (viewport st) + of_int (insertOffset st + 1) * 20\<rparr>,
      st\<lparr>insertOffset := insertOffset st + 1\<rparr>)"
    by (simp add: getNewNodePosition_def Let_def)
  show "insertOffset (dispatch addNodes uuid ev s) = insertOffset s + 1" if "isAdd ev"
    using dispatch_add [OF that] by blast
  show "nodes (dispatch addNodes uuid ev s) =
        addNodes
          \<lparr>node_id = uuid (uuidCalls s),
            position =
              \<lparr>pos_x = - vp_x (viewport s) + of_int (insertOffset s + 1) * 20 + 400,
               pos_y = - vp_y (viewport s) + of_int (insertOffset s + 1) * 20\<rparr>,
            width = Some 600,
            node_type = Some (if ev = AddServiceNode then ''serviceNode'' else ''artifactNode''),
            node_data = []\<rparr>
          (nodes s)" if "isAdd ev"
    using dispatch_add [OF that, of addNodes uuid s] by blast
  show "insertOffset (dispatchAll addNodes uuid evs s) = insertOffset s + int (length evs)"
    if "\<forall>ev \<in> set evs. isAdd ev"
    using dispatchAll_adds_any [OF that, of addNodes uuid s] by blast
  show "insertOffset (onMove st) = 1" by (simp add: onMove_def)
  show "insertOffset (dispatch addNodes uuid (Move vp) s) = 1" by (simp add: onMove_def)
  show "insertOffset (mountVisualiser initialNodes initialEdges initialData vp) = 0"
    by (simp add: mountVisualiser_def)
qed

theorem insert_position_and_counter_witness:
  "isAdd AddArtifactNode \<and>
   insertOffset (dispatch placeFirst exampleUuid AddArtifactNode (onMove freshVisualiser)) = 2 \<and>
   insertOffset (dispatchAll placeFirst exampleUuid [AddServiceNode, AddArtifactNode, AddServiceNode] freshVisualiser) = 3 \<and>
   fst (getNewNodePosition freshVisualiser) = \<lparr>pos_x = 420, pos_y = 20\<rparr> \<and>
   nodes (dispatch placeFirst exampleUuid AddArtifactNode (onMove freshVisualiser)) =
     [\<lparr>node_id = ''node-'', position = \<lparr>pos_x = 440, pos_y = 40\<rparr>, width = Some 600,
       node_type = Some ''artifactNode'', node_data = []\<rparr>]"
  using insert_position_and_counter
    [of freshVisualiser AddArtifactNode placeFirst exampleUuid "onMove freshVisualiser"
        "[AddServiceNode, AddArtifactNode, AddServiceNode]" origin]
    insert_position_and_counter
    [of freshVisualiser AddArtifactNode placeFirst exampleUuid freshVisualiser
        "[AddServiceNode, AddArtifactNode, AddServiceNode]" origin]
  by (simp add: isAdd_def freshVisualiser_def mountVisualiser_def origin_def onMove_def
        exampleUuid_def placeFirst_def)

section \<open>The layout adapter\<close>











section \<open>The initial graph state\<close>

lemma keys_objectSet_set: "set (map fst (objectSet k v obj)) = insert k (set (map fst obj))"
proof (induction obj)
  case Nil
  then show ?case by simp
next
  case (Cons x obj)
  obtain k' v' where x: "x = (k', v')" by (cases x)
  show ?case
  proof (cases "k' = k")
    case True
    then show ?thesis by (simp add: x)
  next
    case False
    then show ?thesis using Cons.IH by (simp add: x insert_commute)
  qed
qed

lemma keys_foldl_objectSet:
  "set (map fst (foldl (\<lambda>acc (i, d). objectSet i d acc) acc xs)) =
     set (map fst acc) \<union> set (map fst xs)"
proof (induction xs arbitrary: acc)
  case Nil
  then show ?case by simp
next
  case (Cons x xs)
  obtain k v where x: "x = (k, v)" by (cases x)
  show ?case
    unfolding x using Cons.IH [of "objectSet k v acc"] keys_objectSet_set [of k v acc] by simp
qed

lemma foldl_objectSet_distinct:
  "distinct (map fst (acc @ xs)) \<Longrightarrow> foldl (\<lambda>acc (i, d). objectSet i d acc) acc xs = acc @ xs"
proof (induction xs arbitrary: acc)
  case Nil
  then show ?case by simp
next
  case (Cons x xs)
  obtain k v where x: "x = (k, v)" by (cases x)
  have "k \<notin> set (map fst acc)" using Cons.prems x by auto
  then have "objectSet k v acc = acc @ [(k, v)]"
    by (induction acc) auto
  moreover have "distinct (map fst ((acc @ [(k, v)]) @ xs))" using Cons.prems x by simp
  ultimately show ?case using Cons.IH [of "acc @ [(k, v)]"] x by simp
qed

text \<open>
  C10. When the pre-existing deployment parses, the initial data handed to the
  graph-state provider keeps a key only if some parsed node has it as identifier: an
  entry without a node is dropped, an entry with a node is kept, and the nodes and edges
  are those parsed. With the keys of the parsed data distinct, as those of an object are,
  the initial data is the parsed data filtered by that test, order and values kept.
\<close>

theorem initialGraphState_data_filtered:
  "initialGraphState (Inr v) = (effs, init) \<Longrightarrow>
     effs = [] \<and> nodes init = nodes v \<and> edges init = edges v \<and>
     (\<forall>k \<in> set (map fst (data init)). \<exists>node \<in> set (nodes v). node_id node = k) \<and>
     (\<forall>k. k \<notin> node_id ` set (nodes v) \<longrightarrow> map_of (data init) k = None) \<and>
     (\<forall>k \<in> set (map fst (data v)). k \<in> node_id ` set (nodes v) \<longrightarrow> k \<in> set (map fst (data init))) \<and>
     (distinct (map fst (data v)) \<longrightarrow>
        data init = filter (\<lambda>(i, d). i \<in> node_id ` set (nodes v)) (data v))"
proof -
  assume run: "initialGraphState (Inr v) = (effs, init)"
  let ?kept = "filter (\<lambda>(i, d). list_ex (\<lambda>node. node_id node = i) (nodes v)) (data v)"
  have kept: "?kept = filter (\<lambda>(i, d). i \<in> node_id ` set (nodes v)) (data v)"
    by (rule filter_cong) (auto simp: list_ex_iff)
  have init: "init = v\<lparr>data := foldl (\<lambda>acc (i, d). objectSet i d acc) [] ?kept\<rparr>" and effs: "effs = []"
    using run by (simp_all add: initialGraphState_def)
  have keys: "set (map fst (data init)) = set (map fst ?kept)"
    using keys_foldl_objectSet [of "[]" ?kept] by (simp add: init)
  have a: "\<forall>k \<in> set (map fst (data init)). \<exists>node \<in> set (nodes v). node_id node = k"
    using keys unfolding kept by auto
  have b: "\<forall>k. k \<notin> node_id ` set (nodes v) \<longrightarrow> map_of (data init) k = None"
  proof (intro allI impI)
    fix k assume "k \<notin> node_id ` set (nodes v)"
    then have "k \<notin> set (map fst (data init))" using a by (metis imageI)
    then show "map_of (data init) k = None" by (simp add: map_of_eq_None_iff)
  qed
  have c: "\<forall>k \<in> set (map fst (data v)). k \<in> node_id ` set (nodes v) \<longrightarrow> k \<in> set (map fst (data init))"
    using keys unfolding kept by force
  have d: "distinct (map fst (data v)) \<longrightarrow>
        data init = filter (\<lambda>(i, d). i \<in> node_id ` set (nodes v)) (data v)"
  proof
    assume "distinct (map fst (data v))"
    then have "distinct (map fst ([] @ ?kept))" by (simp add: distinct_map_filter)
    then have "foldl (\<lambda>acc (i, d). objectSet i d acc) [] ?kept = ?kept"
      using foldl_objectSet_distinct [of "[]" ?kept] by simp
    then show "data init = filter (\<lambda>(i, d). i \<in> node_id ` set (nodes v)) (data v)"
      using kept by (simp add: init)
  qed
  have same: "nodes init = nodes v" "edges init = edges v"
    by (simp_all add: init)
  show ?thesis using effs same a b c d by blast
qed

theorem initialGraphState_data_filtered_witness:
  "initialGraphState (Inr exampleParse) = ([] :: nat effect list, exampleParse\<lparr>data := [(''A'', 1)]\<rparr>) \<and>
   distinct (map fst (data exampleParse)) \<and>
   map_of (data exampleParse) ''gone'' = Some 2 \<and>
   map_of (data (exampleParse\<lparr>data := [(''A'', 1)]\<rparr>)) ''gone'' = None"
proof -
  have run: "initialGraphState (Inr exampleParse) =
      ([] :: nat effect list, exampleParse\<lparr>data := [(''A'', 1)]\<rparr>)"
    by (simp add: initialGraphState_def exampleParse_def exampleNode_def)
  have absent: "''gone'' \<notin> node_id ` set (nodes exampleParse)"
    by (simp add: exampleParse_def exampleNode_def)
  have dropped: "map_of (data (exampleParse\<lparr>data := [(''A'', 1)]\<rparr>)) ''gone'' = None"
    using initialGraphState_data_filtered [OF run] absent by blast
  have before: "distinct (map fst (data exampleParse))" "map_of (data exampleParse) ''gone'' = Some 2"
    by (simp_all add: exampleParse_def)
  show ?thesis using run dropped before by blast
qed

end
